theory Spec2Isabelle
  imports Main "HOL-Library.Sublist"
begin

section \<open>JavaScript numbers and parseInt\<close>

text \<open>
  A JavaScript number as the service uses it: an integer or NaN. The integers are
  unbounded here; the rounding of doubles above \<open>2^53\<close> is outside this model.
\<close>

datatype jsnum = Num int | NaN

fun js_times :: "jsnum \<Rightarrow> jsnum \<Rightarrow> jsnum" where
  "js_times (Num a) (Num b) = Num (a * b)"
| "js_times _ _ = NaN"

fun js_plus :: "jsnum \<Rightarrow> jsnum \<Rightarrow> jsnum" where
  "js_plus (Num a) (Num b) = Num (a + b)"
| "js_plus _ _ = NaN"

definition is_digit :: "char \<Rightarrow> bool" where
  "is_digit c = (48 \<le> (of_char c :: nat) \<and> (of_char c :: nat) \<le> 57)"

definition is_space :: "char \<Rightarrow> bool" where
  \<comment> \<open>the white space of one byte: tab, line feed, vertical tab, form feed, carriage return, space\<close>
  "is_space c = ((of_char c :: nat) \<in> {9, 10, 11, 12, 13, 32})"

definition hex_val :: "char \<Rightarrow> nat option" where
  "hex_val c =
     (let n = (of_char c :: nat) in
      if 48 \<le> n \<and> n \<le> 57 then Some (n - 48)
      else if 97 \<le> n \<and> n \<le> 102 then Some (n - 87)
      else if 65 \<le> n \<and> n \<le> 70 then Some (n - 55)
      else None)"

definition radix_val :: "nat \<Rightarrow> char \<Rightarrow> nat option" where
  "radix_val r c = (case hex_val c of None \<Rightarrow> None | Some d \<Rightarrow> if d < r then Some d else None)"

text \<open>The value of a run of digits in radix \<open>r\<close>, most significant digit first.\<close>

fun digits_value :: "nat \<Rightarrow> nat \<Rightarrow> string \<Rightarrow> nat" where
  "digits_value r acc [] = acc"
| "digits_value r acc (c # cs) = digits_value r (acc * r + (case radix_val r c of None \<Rightarrow> 0 | Some d \<Rightarrow> d)) cs"

definition strip_sign :: "string \<Rightarrow> int \<times> string" where
  "strip_sign s =
     (case s of
        [] \<Rightarrow> (1, [])
      | c # cs \<Rightarrow> if c = CHR ''-'' then (- 1, cs) else if c = CHR ''+'' then (1, cs) else (1, s))"

definition has_hex_prefix :: "string \<Rightarrow> bool" where
  "has_hex_prefix s =
     (case s of
        a # b # _ \<Rightarrow> a = CHR ''0'' \<and> (b = CHR ''x'' \<or> b = CHR ''X'')
      | _ \<Rightarrow> False)"

definition parse_digits :: "int \<Rightarrow> nat \<Rightarrow> string \<Rightarrow> jsnum" where
  "parse_digits sg r s =
     (let ds = takeWhile (\<lambda>c. radix_val r c \<noteq> None) s
      in if ds = [] then NaN else Num (sg * int (digits_value r 0 ds)))"

text \<open>
  \<open>parseInt(s, radix)\<close> with the radix absent (\<open>None\<close>) or given as 10 or 16: leading
  white space is dropped, a sign is read, a \<open>0x\<close> prefix selects radix 16 unless the
  radix is 10, and the longest run of digits is the value; no digit gives NaN.
\<close>

definition parseInt :: "string \<Rightarrow> nat option \<Rightarrow> jsnum" where
  "parseInt s radix =
     (let (sg, u) = strip_sign (dropWhile is_space s)
      in if radix \<noteq> Some 10 \<and> has_hex_prefix u then parse_digits sg 16 (drop 2 u)
         else parse_digits sg (case radix of None \<Rightarrow> 10 | Some r \<Rightarrow> r) u)"

section \<open>DurationParser\<close>

text \<open>
  \<open>duration.match(/PT(\d+H)?(\d+M)?(\d+S)?/)\<close>: the pattern is not anchored, so the match
  starts at the leftmost \<open>PT\<close> of the string; \<open>after_PT\<close> gives what follows it, and
  \<open>None\<close> when the string has no \<open>PT\<close> (the match is null).
\<close>

fun after_PT :: "string \<Rightarrow> string option" where
  "after_PT [] = None"
| "after_PT [c] = None"
| "after_PT (a # b # cs) =
     (if a = CHR ''P'' \<and> b = CHR ''T'' then Some cs else after_PT (b # cs))"

text \<open>
  One optional group \<open>(\d+X)?\<close> at the head of \<open>s\<close>: the captured text (digits and the
  letter) when a non-empty run of digits is followed by the letter, and the rest of the
  string; otherwise the group is undefined and nothing is consumed.
\<close>

definition opt_group :: "char \<Rightarrow> string \<Rightarrow> string option \<times> string" where
  "opt_group x s =
     (let ds = takeWhile is_digit s; rest = dropWhile is_digit s
      in case rest of
           [] \<Rightarrow> (None, s)
         | c # cs \<Rightarrow> if ds \<noteq> [] \<and> c = x then (Some (ds @ [c]), cs) else (None, s))"

definition parseDuration :: "string \<Rightarrow> jsnum" where
  "parseDuration duration =
     (case after_PT duration of
        None \<Rightarrow> Num 0
      | Some r0 \<Rightarrow>
          (let (m1, r1) = opt_group CHR ''H'' r0;
               (m2, r2) = opt_group CHR ''M'' r1;
               (m3, r3) = opt_group CHR ''S'' r2;
               hours = (case m1 of None \<Rightarrow> Num 0
                        | Some t \<Rightarrow> js_times (parseInt (remove1 CHR ''H'' t) None) (Num 3600));
               minutes = (case m2 of None \<Rightarrow> Num 0
                          | Some t \<Rightarrow> js_times (parseInt (remove1 CHR ''M'' t) None) (Num 60));
               seconds = (case m3 of None \<Rightarrow> Num 0
                          | Some t \<Rightarrow> parseInt (remove1 CHR ''S'' t) None)
           in js_plus (js_plus hours minutes) seconds))"

section \<open>Data model\<close>

text \<open>\<open>VideoMetadata\<close>; the field \<open>id\<close> is \<open>id_str\<close> here.\<close>

record VideoMetadata =
  id_str :: string
  title :: string
  description :: string
  publishedDate :: string
  durationInSeconds :: jsnum
  viewCount :: jsnum
  url :: string
  thumbnail :: string
  channel_name :: string

section \<open>Deduplicator\<close>

text \<open>
  \<open>videos.filter(video => ...)\<close> with the set \<open>uniqueIds\<close> threaded through the
  calls of the predicate, in the order of the array.
\<close>

fun filter_unseen :: "string set \<Rightarrow> VideoMetadata list \<Rightarrow> VideoMetadata list" where
  "filter_unseen uniqueIds [] = []"
| "filter_unseen uniqueIds (video # videos) =
     (if id_str video \<in> uniqueIds then filter_unseen uniqueIds videos
      else video # filter_unseen (insert (id_str video) uniqueIds) videos)"

definition removeDuplicateVideos :: "VideoMetadata list \<Rightarrow> VideoMetadata list" where
  "removeDuplicateVideos videos = filter_unseen {} videos"

section \<open>Provider replies\<close>

text \<open>
  A rejected API call. \<open>error.response\<close> may be absent; when present it carries the HTTP
  status and the \<open>reason\<close> of each entry of \<open>data.error.errors\<close> (none when that path is
  absent).
\<close>

record ErrorResponse =
  status :: int
  reasons :: "string list"

datatype api_error = ApiError (response: "ErrorResponse option")

definition is_quota_error :: "api_error \<Rightarrow> bool" where
  "is_quota_error e =
     (case response e of
        None \<Rightarrow> False
      | Some r \<Rightarrow> status r = 403 \<and> ''quotaExceeded'' \<in> set (reasons r))"

text \<open>
  \<open>search.list\<close>: \<open>data.items\<close> (each item reduced to its \<open>id?.videoId\<close>) and
  \<open>data.nextPageToken\<close>.
\<close>

record SearchResponse =
  search_items :: "string option list option"
  next_token :: "string option"

text \<open>One item of \<open>videos.list\<close>, its optional chains flattened.\<close>

record VideoResource =
  res_id :: "string option"
  snippet_title :: "string option"
  snippet_description :: "string option"
  snippet_publishedAt :: "string option"
  contentDetails_duration :: "string option"
  statistics_viewCount :: "string option"
  thumbnails_high_url :: "string option"
  snippet_channelTitle :: "string option"

text \<open>\<open>x || d\<close> for an optional string: absent and empty both give the default.\<close>

definition or_else :: "string option \<Rightarrow> string \<Rightarrow> string" where
  "or_else x d = (case x of None \<Rightarrow> d | Some v \<Rightarrow> if v = [] then d else v)"

text \<open>\<open>x || null\<close> for an optional string.\<close>

definition or_null :: "string option \<Rightarrow> string option" where
  "or_null x = (case x of None \<Rightarrow> None | Some v \<Rightarrow> if v = [] then None else Some v)"

text \<open>
  The object literal that \<open>fetchVideosByDateRange\<close> and \<open>getVideoDetails\<close> both build
  from a video resource.
\<close>

definition metadata_of :: "string \<Rightarrow> VideoResource \<Rightarrow> VideoMetadata" where
  "metadata_of videoId video =
     \<lparr> id_str = videoId,
       title = or_else (snippet_title video) [],
       description = or_else (snippet_description video) [],
       publishedDate = or_else (snippet_publishedAt video) [],
       durationInSeconds = parseDuration (or_else (contentDetails_duration video) ''PT0S''),
       viewCount = parseInt (or_else (statistics_viewCount video) ''0'') (Some 10),
       url = ''https://www.youtube.com/watch?v='' @ videoId,
       thumbnail = or_else (thumbnails_high_url video) [],
       channel_name = or_else (snippet_channelTitle video) [] \<rparr>"

section \<open>The service and its provider\<close>

text \<open>
  What the service does to the outside, in order: a \<open>search.list\<close> request (page token,
  publishedAfter, publishedBefore), a \<open>videos.list\<close> request (the ids), a pause until an
  instant.
\<close>

datatype event = SearchList "string option" int int | VideosList "string list" | Pause int

text \<open>
  The service instance with the world it talks to: the flag \<open>quotaExceeded\<close>, the clock
  (milliseconds, days counted in UTC), the replies the provider will give to the next
  \<open>search.list\<close> and \<open>videos.list\<close> calls, and the events so far. A call that finds no
  reply left gives \<open>None\<close>: the scenario says nothing about it.
\<close>

record service =
  quotaExceeded :: bool
  now :: int
  search_replies :: "(api_error + SearchResponse) list"
  videos_replies :: "(api_error + VideoResource list option) list"
  trace :: "event list"

definition day_ms :: int where
  "day_ms = 86400000"

definition search_list ::
  "string option \<Rightarrow> int \<Rightarrow> int \<Rightarrow> service \<Rightarrow> ((api_error + SearchResponse) \<times> service) option" where
  "search_list pageToken publishedAfter publishedBefore s =
     (case search_replies s of
        [] \<Rightarrow> None
      | r # rs \<Rightarrow>
          Some (r, s\<lparr>search_replies := rs,
                     trace := trace s @ [SearchList pageToken publishedAfter publishedBefore]\<rparr>))"

definition videos_list ::
  "string list \<Rightarrow> service \<Rightarrow> ((api_error + VideoResource list option) \<times> service) option" where
  "videos_list ids s =
     (case videos_replies s of
        [] \<Rightarrow> None
      | r # rs \<Rightarrow> Some (r, s\<lparr>videos_replies := rs, trace := trace s @ [VideosList ids]\<rparr>))"

section \<open>QuotaGovernor\<close>

text \<open>
  The head of each iteration of the page loop: when the flag is set, wait until the start
  of the next day and clear it.
\<close>

definition await_quota :: "service \<Rightarrow> service" where
  "await_quota s =
     (if quotaExceeded s then
        (let resetTime = (now s div day_ms + 1) * day_ms
         in s\<lparr>quotaExceeded := False, now := resetTime, trace := trace s @ [Pause resetTime]\<rparr>)
      else s)"

section \<open>PageFetcher\<close>

text \<open>How an iteration of the \<open>do ... while\<close> leaves its body.\<close>

datatype flow = Break | Next

text \<open>The loop variables \<open>allVideos\<close>, \<open>nextPageToken\<close>, \<open>resultsFetched\<close>.\<close>

type_synonym fetch_vars = "VideoMetadata list \<times> string option \<times> nat"

text \<open>
  The \<open>try\<close> block of one iteration. \<open>Inl\<close> is an error thrown by either API call, on
  its way to the \<open>catch\<close>.
\<close>

definition try_page ::
  "int \<Rightarrow> int \<Rightarrow> int option \<Rightarrow> fetch_vars \<Rightarrow> service
    \<Rightarrow> ((api_error + flow \<times> fetch_vars) \<times> service) option" where
  "try_page startDate endDate maxResults vars s =
     (case vars of (allVideos, nextPageToken, resultsFetched) \<Rightarrow>
      (case search_list nextPageToken startDate endDate s of
         None \<Rightarrow> None
       | Some (Inl e, s1) \<Rightarrow> Some (Inl e, s1)
       | Some (Inr resp, s1) \<Rightarrow>
           (case search_items resp of
              None \<Rightarrow> Some (Inr (Break, vars), s1)
            | Some videos \<Rightarrow>
                if videos = [] then Some (Inr (Break, vars), s1)
                else
                  (let videoIds = List.map_filter (\<lambda>i. i) videos
                   in if videoIds = [] then Some (Inr (Break, vars), s1)
                      else
                        (case videos_list videoIds s1 of
                           None \<Rightarrow> None
                         | Some (Inl e, s2) \<Rightarrow> Some (Inl e, s2)
                         | Some (Inr detailsItems, s2) \<Rightarrow>
                             (let videoDetails = (case detailsItems of None \<Rightarrow> [] | Some ds \<Rightarrow> ds);
                                  videoMetadata =
                                    List.map_filter
                                      (\<lambda>video. case res_id video of
                                                  None \<Rightarrow> None
                                                | Some videoId \<Rightarrow>
                                                    if videoId = [] then None
                                                    else Some (metadata_of videoId video))
                                      videoDetails;
                                  allVideos' = allVideos @ videoMetadata;
                                  resultsFetched' = resultsFetched + length videoMetadata;
                                  nextPageToken' = or_null (next_token resp);
                                  vars' = (allVideos', nextPageToken', resultsFetched')
                              in case maxResults of
                                   None \<Rightarrow> Some (Inr (Next, vars'), s2)
                                 | Some m \<Rightarrow>
                                     if m \<le> int resultsFetched' then Some (Inr (Break, vars'), s2)
                                     else Some (Inr (Next, vars'), s2)))))))"

text \<open>
  The \<open>do ... while (nextPageToken !== null)\<close> loop. \<open>continue\<close> in the \<open>catch\<close> goes to
  the loop condition, as every \<open>continue\<close> of a \<open>do ... while\<close> does.
\<close>

function fetch_loop ::
  "int \<Rightarrow> int \<Rightarrow> int option \<Rightarrow> fetch_vars \<Rightarrow> service \<Rightarrow> (VideoMetadata list \<times> service) option" where
  "fetch_loop startDate endDate maxResults vars s =
     (case try_page startDate endDate maxResults vars (await_quota s) of
        None \<Rightarrow> None
      | Some (Inr (Break, vars'), s') \<Rightarrow> Some (fst vars', s')
      | Some (Inr (Next, vars'), s') \<Rightarrow>
          if fst (snd vars') \<noteq> None then fetch_loop startDate endDate maxResults vars' s'
          else Some (fst vars', s')
      | Some (Inl e, s') \<Rightarrow>
          if is_quota_error e then
            (let s'' = s'\<lparr>quotaExceeded := True\<rparr>
             in if fst (snd vars) \<noteq> None then fetch_loop startDate endDate maxResults vars s''
                else Some (fst vars, s''))
          else Some (fst vars, s'))"
  by pat_completeness auto
termination
  apply (relation "measure (\<lambda>(a, b, m, vars, s). length (search_replies s))")
    apply simp
   apply (auto simp: try_page_def search_list_def videos_list_def await_quota_def Let_def
      split: prod.splits list.splits sum.splits option.splits if_splits)
  done

declare fetch_loop.simps [simp del]

definition fetchVideosByDateRange ::
  "int \<Rightarrow> int \<Rightarrow> int option \<Rightarrow> service \<Rightarrow> (VideoMetadata list \<times> service) option" where
  "fetchVideosByDateRange startDate endDate maxResults s =
     fetch_loop startDate endDate maxResults ([], None, 0) s"

section \<open>SingleItemLookup\<close>

text \<open>
  \<open>getVideoDetails\<close>: one \<open>videos.list\<close> call inside a \<open>try\<close> whose \<open>catch\<close> returns
  \<open>null\<close>. The method does not read \<open>quotaExceeded\<close>.
\<close>

definition getVideoDetails :: "string \<Rightarrow> service \<Rightarrow> (VideoMetadata option \<times> service) option" where
  "getVideoDetails videoId s =
     (case videos_list [videoId] s of
        None \<Rightarrow> None
      | Some (Inl e, s') \<Rightarrow> Some (None, s')
      | Some (Inr detailsItems, s') \<Rightarrow>
          (case detailsItems of
             None \<Rightarrow> Some (None, s')
           | Some [] \<Rightarrow> Some (None, s')
           | Some (video # _) \<Rightarrow> Some (Some (metadata_of videoId video), s')))"

section \<open>WindowChunker and SearchOrchestrator\<close>

definition dateChunkIntervalDays :: int where
  "dateChunkIntervalDays = 180"

text \<open>
  \<open>currentStartDate.plus({ days: dateChunkIntervalDays })\<close>, cut at the overall end.
\<close>

definition chunk_end :: "int \<Rightarrow> int \<Rightarrow> int" where
  "chunk_end currentStartDate endDateTime =
     (let chunkEndDate = currentStartDate + dateChunkIntervalDays * day_ms
      in if chunkEndDate > endDateTime then endDateTime else chunkEndDate)"

text \<open>
  The fifth argument of the call of \<open>fetchVideosByDateRange\<close>:
  \<open>totalResults ? totalResults - resultsFetched : undefined\<close>; 0 is falsy.
\<close>

definition window_cap :: "int option \<Rightarrow> nat \<Rightarrow> int option" where
  "window_cap totalResults resultsFetched =
     (case totalResults of
        None \<Rightarrow> None
      | Some t \<Rightarrow> if t = 0 then None else Some (t - int resultsFetched))"

text \<open>
  The \<open>while (currentStartDate < endDateTime)\<close> loop of \<open>searchVideos\<close>, with its
  variables \<open>allVideos\<close> and \<open>resultsFetched\<close>.
\<close>

function search_loop ::
  "int option \<Rightarrow> int \<Rightarrow> int \<Rightarrow> VideoMetadata list \<times> nat \<Rightarrow> service
    \<Rightarrow> (VideoMetadata list \<times> service) option" where
  "search_loop totalResults endDateTime currentStartDate vars s =
     (case vars of (allVideos, resultsFetched) \<Rightarrow>
      if currentStartDate < endDateTime then
        (let chunkEndDate = chunk_end currentStartDate endDateTime
         in case fetchVideosByDateRange currentStartDate chunkEndDate
                  (window_cap totalResults resultsFetched) s of
              None \<Rightarrow> None
            | Some (chunkVideos, s') \<Rightarrow>
                (let allVideos' = allVideos @ chunkVideos;
                     resultsFetched' = resultsFetched + length chunkVideos
                 in if (case totalResults of None \<Rightarrow> False | Some t \<Rightarrow> t \<le> int resultsFetched')
                    then Some (allVideos', s')
                    else search_loop totalResults endDateTime chunkEndDate
                           (allVideos', resultsFetched') s'))
      else Some (allVideos, s))"
  by pat_completeness auto
termination
  apply (relation "measure (\<lambda>(t, e, c, vars, s). nat (e - c))")
   apply simp
  apply (auto simp: chunk_end_def dateChunkIntervalDays_def day_ms_def Let_def)
  done

declare search_loop.simps [simp del]

text \<open>\<open>xs.slice(0, n)\<close>: a negative \<open>n\<close> counts from the end.\<close>

definition slice0 :: "'a list \<Rightarrow> int \<Rightarrow> 'a list" where
  "slice0 xs n = take (nat (if n < 0 then int (length xs) + n else n)) xs"

text \<open>
  \<open>searchVideos\<close>, from the resolved \<open>startDateTime\<close> and \<open>endDateTime\<close> on. Its result
  is \<open>Inr\<close> of the returned array or \<open>Inl\<close> of the error it throws: the \<open>catch\<close>
  rethrows whatever the \<open>try\<close> block raises, and the only provider calls of the block are
  inside \<open>fetchVideosByDateRange\<close>, which returns an array in every case.
\<close>

definition searchVideos ::
  "int option \<Rightarrow> int \<Rightarrow> int \<Rightarrow> service \<Rightarrow> ((api_error + VideoMetadata list) \<times> service) option" where
  "searchVideos totalResults startDateTime endDateTime s =
     (case search_loop totalResults endDateTime startDateTime ([], 0) s of
        None \<Rightarrow> None
      | Some (allVideos, s') \<Rightarrow>
          (let uniqueVideos = removeDuplicateVideos allVideos
           in case totalResults of
                None \<Rightarrow> Some (Inr uniqueVideos, s')
              | Some t \<Rightarrow>
                  if int (length uniqueVideos) > t then Some (Inr (slice0 uniqueVideos t), s')
                  else Some (Inr uniqueVideos, s')))"




section \<open>Value ranges\<close>





section \<open>Scenarios\<close>

text \<open>Replies and services used to run the definitions on concrete inputs.\<close>

definition quota_403 :: api_error where
  "quota_403 = ApiError (Some \<lparr>status = 403, reasons = [''quotaExceeded'']\<rparr>)"

definition server_500 :: api_error where
  "server_500 = ApiError (Some \<lparr>status = 500, reasons = []\<rparr>)"

definition resource :: "string \<Rightarrow> string option \<Rightarrow> string option \<Rightarrow> VideoResource" where
  "resource i d v =
     \<lparr> res_id = Some i, snippet_title = None, snippet_description = None,
       snippet_publishedAt = None, contentDetails_duration = d, statistics_viewCount = v,
       thumbnails_high_url = None, snippet_channelTitle = None \<rparr>"

definition page_of :: "string list \<Rightarrow> string option \<Rightarrow> SearchResponse" where
  "page_of ids t = \<lparr> search_items = Some (map Some ids), next_token = t \<rparr>"

definition details_of :: "string list \<Rightarrow> api_error + VideoResource list option" where
  "details_of ids = Inr (Some (map (\<lambda>i. resource i (Some ''PT5M'') (Some ''12'')) ids))"

definition service_with ::
  "bool \<Rightarrow> (api_error + SearchResponse) list \<Rightarrow> (api_error + VideoResource list option) list
    \<Rightarrow> service" where
  "service_with q sr vr =
     \<lparr> quotaExceeded = q, now = 1000, search_replies = sr, videos_replies = vr, trace = [] \<rparr>"

definition video_named :: "string \<Rightarrow> VideoMetadata" where
  "video_named i = metadata_of i (resource i (Some ''PT5M'') (Some ''12''))"

definition seven :: "string \<Rightarrow> string list" where
  "seven w = map (\<lambda>c. w @ [c]) ''1234567''"

definition three_windows :: service where
  "three_windows = service_with False
     [Inr (page_of (seven ''a'') None), Inr (page_of (seven ''b'') None), Inr (page_of (seven ''c'') None)]
     [details_of (seven ''a''), details_of (seven ''b''), details_of (seven ''c'')]"



section \<open>Properties of the duration parser\<close>

lemma after_PT_None_iff: "after_PT s = None \<longleftrightarrow> \<not> (\<exists>a b. s = a @ ''PT'' @ b)"
proof (induction s rule: after_PT.induct)
  case 1
  show ?case by simp
next
  case (2 c)
  show ?case by (auto simp: append_eq_Cons_conv)
next
  case (3 a b cs)
  show ?case
  proof (cases "a = CHR ''P'' \<and> b = CHR ''T''")
    case True
    then have "a # b # cs = [] @ ''PT'' @ cs" by simp
    then show ?thesis using True by (metis after_PT.simps(3) option.distinct(1))
  next
    case False
    have "(\<exists>x y. a # b # cs = x @ ''PT'' @ y) \<longleftrightarrow> (\<exists>x y. b # cs = x @ ''PT'' @ y)"
    proof
      assume "\<exists>x y. a # b # cs = x @ ''PT'' @ y"
      then obtain x y where e: "a # b # cs = x @ ''PT'' @ y" by blast
      show "\<exists>x y. b # cs = x @ ''PT'' @ y"
      proof (cases x)
        case Nil
        with e False show ?thesis by simp
      next
        case (Cons h t)
        with e have "b # cs = t @ ''PT'' @ y" by simp
        then show ?thesis by blast
      qed
    next
      assume "\<exists>x y. b # cs = x @ ''PT'' @ y"
      then obtain x y where "b # cs = x @ ''PT'' @ y" by blast
      then have "a # b # cs = (a # x) @ ''PT'' @ y" by simp
      then show "\<exists>x y. a # b # cs = x @ ''PT'' @ y" by blast
    qed
    moreover have "after_PT (a # b # cs) = after_PT (b # cs)" using False by auto
    moreover note 3[OF False]
    ultimately show ?thesis by simp
  qed
qed






lemma no_PT_zero:
  assumes "\<nexists>a b. s = a @ ''PT'' @ b"
  shows "parseDuration s = Num 0"
proof -
  from assms have "after_PT s = None" by (rule after_PT_None_iff[THEN iffD2])
  then show ?thesis by (simp add: parseDuration_def)
qed





text \<open>
  C9: a duration string with no \<open>PT\<close> in it parses to 0. \<open>P1DT2H\<close> is one: its day
  component separates \<open>P\<close> from \<open>T\<close>, so the two hours after it count for nothing.
\<close>

theorem parseDuration_without_PT_is_zero:
  assumes "\<nexists>a b. duration = a @ ''PT'' @ b"
  shows "parseDuration duration = Num 0"
  using assms by (rule no_PT_zero)

theorem parseDuration_without_PT_is_zero_witness:
  "(\<nexists>a b. ''P1DT2H'' = a @ ''PT'' @ b) \<and> parseDuration ''P1DT2H'' = Num 0"
proof -
  have h: "\<nexists>a b. ''P1DT2H'' = a @ ''PT'' @ b"
    using after_PT_None_iff[of "''P1DT2H''"] by simp
  then show ?thesis using parseDuration_without_PT_is_zero[OF h] by blast
qed

section \<open>Properties of the deduplicator\<close>

lemma filter_unseen_ids:
  "set (map id_str (filter_unseen seen xs)) = set (map id_str xs) - seen"
  by (induction xs arbitrary: seen) auto

lemma filter_unseen_distinct: "distinct (map id_str (filter_unseen seen xs))"
  by (induction xs arbitrary: seen) (auto simp: filter_unseen_ids simp del: set_map)

lemma filter_unseen_snoc:
  "filter_unseen seen (ys @ [v]) =
     (if id_str v \<in> seen \<union> id_str ` set ys then filter_unseen seen ys
      else filter_unseen seen ys @ [v])"
  by (induction ys arbitrary: seen) auto

lemma filter_unseen_first:
  "v \<in> set (filter_unseen seen xs) \<Longrightarrow> find (\<lambda>w. id_str w = id_str v) xs = Some v"
proof (induction xs arbitrary: seen)
  case Nil
  then show ?case by simp
next
  case (Cons x xs)
  show ?case
  proof (cases "id_str x \<in> seen")
    case True
    with Cons.prems have v: "v \<in> set (filter_unseen seen xs)" by simp
    then have "id_str v \<in> set (map id_str (filter_unseen seen xs))" by simp
    then have "id_str v \<notin> seen" unfolding filter_unseen_ids by simp
    with True have "id_str x \<noteq> id_str v" by auto
    then show ?thesis using Cons.IH[OF v] by simp
  next
    case False
    with Cons.prems have "v = x \<or> v \<in> set (filter_unseen (insert (id_str x) seen) xs)"
      by auto
    then show ?thesis
    proof
      assume "v = x"
      then show ?thesis by simp
    next
      assume v: "v \<in> set (filter_unseen (insert (id_str x) seen) xs)"
      then have "id_str v \<in> set (map id_str (filter_unseen (insert (id_str x) seen) xs))"
        by simp
      then have "id_str v \<noteq> id_str x" unfolding filter_unseen_ids by simp
      then show ?thesis using Cons.IH[OF v] by simp
    qed
  qed
qed

lemma filter_unseen_fixed:
  "distinct (map id_str xs) \<Longrightarrow> set (map id_str xs) \<inter> seen = {} \<Longrightarrow> filter_unseen seen xs = xs"
  by (induction xs arbitrary: seen) auto

text \<open>
  C7: the output of \<open>removeDuplicateVideos\<close> has each id of the input once; going through
  the input from the left, a record is appended exactly when no earlier record has its id,
  so the output keeps the first record of each id, in first-seen order; and
  \<open>[A, B, A, C]\<close> gives \<open>[A, B, C]\<close>.
\<close>

theorem removeDuplicateVideos_first_seen:
  "distinct (map id_str (removeDuplicateVideos xs))
   \<and> set (map id_str (removeDuplicateVideos xs)) = set (map id_str xs)
   \<and> removeDuplicateVideos [] = []
   \<and> removeDuplicateVideos (ys @ [v]) =
       (if id_str v \<in> id_str ` set ys then removeDuplicateVideos ys
        else removeDuplicateVideos ys @ [v])
   \<and> (\<forall>u\<in>set (removeDuplicateVideos xs). find (\<lambda>w. id_str w = id_str u) xs = Some u)
   \<and> (id_str a \<noteq> id_str b \<and> id_str a \<noteq> id_str c \<and> id_str b \<noteq> id_str c
        \<longrightarrow> removeDuplicateVideos [a, b, a, c] = [a, b, c])"
  unfolding removeDuplicateVideos_def
  using filter_unseen_distinct[of "{}" xs] filter_unseen_ids[of "{}" xs]
    filter_unseen_snoc[of "{}" ys v] filter_unseen_first[of _ "{}" xs]
  by auto

theorem removeDuplicateVideos_first_seen_witness:
  "removeDuplicateVideos [video_named ''A'', video_named ''B'', video_named ''A'', video_named ''C'']
     = [video_named ''A'', video_named ''B'', video_named ''C'']"
  using removeDuplicateVideos_first_seen
    [of "[]" "[]" "video_named ''A''" "video_named ''A''" "video_named ''B''" "video_named ''C''"]
  by (simp add: video_named_def metadata_of_def)

text \<open>
  C10: \<open>removeDuplicateVideos\<close> is idempotent, and it returns unchanged every sequence
  whose ids are pairwise distinct.
\<close>

theorem removeDuplicateVideos_idempotent:
  "removeDuplicateVideos (removeDuplicateVideos xs) = removeDuplicateVideos xs
   \<and> (distinct (map id_str xs) \<longrightarrow> removeDuplicateVideos xs = xs)"
  unfolding removeDuplicateVideos_def
  by (simp add: filter_unseen_fixed filter_unseen_distinct)

theorem removeDuplicateVideos_idempotent_witness:
  "distinct (map id_str [video_named ''A'', video_named ''B'', video_named ''C''])
   \<and> removeDuplicateVideos [video_named ''A'', video_named ''B'', video_named ''C'']
       = [video_named ''A'', video_named ''B'', video_named ''C'']"
proof -
  have d: "distinct (map id_str [video_named ''A'', video_named ''B'', video_named ''C''])"
    by (simp add: video_named_def metadata_of_def)
  then show ?thesis
    using removeDuplicateVideos_idempotent
      [of "[video_named ''A'', video_named ''B'', video_named ''C'']"]
    by blast
qed

section \<open>Properties of the window chunker\<close>











section \<open>Properties of the page loop and of the produced records\<close>











lemma fetch_loop_quota:
  "try_page a b m vars (await_quota s) = Some (Inl e, s1) \<Longrightarrow> is_quota_error e \<Longrightarrow>
     fetch_loop a b m vars s =
       (if fst (snd vars) \<noteq> None then fetch_loop a b m vars (s1\<lparr>quotaExceeded := True\<rparr>)
        else Some (fst vars, s1\<lparr>quotaExceeded := True\<rparr>))"
  by (subst fetch_loop.simps) (simp add: Let_def)








lemmas svc_eval = service_with_def details_of_def page_of_def resource_def quota_403_def
  server_500_def video_named_def metadata_of_def or_else_def or_null_def is_quota_error_def
  videos_list_def search_list_def await_quota_def day_ms_def List.map_filter_def



section \<open>Properties of the single-item lookup\<close>

text \<open>
  C3, as the code has it. \<open>getVideoDetails\<close> issues exactly one \<open>videos.list\<close> request
  for the one id, at once: the trace grows by that request and by nothing else (no pause),
  and the flag \<open>quotaExceeded\<close> and the clock are left as they were, whatever the flag
  is. The result is absent or the record built from the first item of the reply. (The
  call is undetermined only when the scenario holds no reply for it.)
\<close>

theorem getVideoDetails_one_request:
  "(getVideoDetails videoId s = None \<longleftrightarrow> videos_replies s = [])
   \<and> (videos_replies s = r # rs \<longrightarrow>
        (\<exists>res. getVideoDetails videoId s
                 = Some (res, s\<lparr>videos_replies := rs, trace := trace s @ [VideosList [videoId]]\<rparr>)
           \<and> (res = None \<or> (\<exists>video. res = Some (metadata_of videoId video)))))"
  by (auto simp: getVideoDetails_def videos_list_def split: list.splits sum.splits option.splits)

theorem getVideoDetails_one_request_witness:
  "videos_replies (service_with True [] [details_of [''a'']]) = [details_of [''a'']]
   \<and> (\<exists>res. getVideoDetails ''a'' (service_with True [] [details_of [''a'']])
         = Some (res, service_with True [] [details_of [''a'']]
                        \<lparr>videos_replies := [], trace := [VideosList [''a'']]\<rparr>))"
proof -
  have h: "videos_replies (service_with True [] [details_of [''a'']]) = [details_of [''a'']]"
    by (simp add: service_with_def)
  have t: "trace (service_with True [] [details_of [''a'']]) = []"
    by (simp add: service_with_def)
  show ?thesis
    using h t getVideoDetails_one_request
      [of "''a''" "service_with True [] [details_of [''a'']]" "details_of [''a'']" "[]"]
    by auto
qed

text \<open>
  C3, the counterexample: with \<open>quotaExceeded\<close> set, the lookup sends its request at
  once; the trace holds the request and no pause before it, and the clock has not moved.
\<close>

theorem getVideoDetails_ignores_quota_counterexample:
  "getVideoDetails ''a'' (service_with True [] [details_of [''a'']])
     = Some (Some (video_named ''a''),
             \<lparr>quotaExceeded = True, now = 1000, search_replies = [], videos_replies = [],
               trace = [VideosList [''a'']]\<rparr>)"
  by (simp add: getVideoDetails_def svc_eval)

section \<open>Properties of the search\<close>

lemma res_id_resource: "res_id (resource i d v) = Some i"
  by (simp add: resource_def)

lemma id_str_metadata: "id_str (metadata_of i r) = i"
  by (simp add: metadata_of_def)

lemmas run_eval = searchVideos_def search_loop.simps fetchVideosByDateRange_def fetch_loop.simps
  try_page_def chunk_end_def dateChunkIntervalDays_def window_cap_def removeDuplicateVideos_def
  slice0_def service_with_def details_of_def page_of_def quota_403_def
  server_500_def video_named_def or_null_def is_quota_error_def videos_list_def search_list_def
  await_quota_def day_ms_def List.map_filter_def res_id_resource id_str_metadata Let_def

text \<open>
  C4: with \<open>maxResults\<close> set to a count \<open>t\<close> and more than \<open>t\<close> records left after
  deduplication of everything the windows gave, \<open>searchVideos\<close> returns the first \<open>t\<close>
  of the deduplicated sequence, exactly \<open>t\<close> records: the cut is the last step, after
  the windows and after the deduplication, and it keeps the order of the accumulated
  sequence.
\<close>

theorem searchVideos_truncates_after_dedup:
  assumes "search_loop (Some t) endDateTime startDateTime ([], 0) s = Some (allVideos, s')"
    and "0 \<le> t" and "t < int (length (removeDuplicateVideos allVideos))"
  shows "searchVideos (Some t) startDateTime endDateTime s
           = Some (Inr (take (nat t) (removeDuplicateVideos allVideos)), s')
         \<and> length (take (nat t) (removeDuplicateVideos allVideos)) = nat t"
  using assms by (simp add: searchVideos_def slice0_def Let_def)

text \<open>
  The example of C4: three windows, a page of seven distinct videos in each, and
  \<open>maxResults = 10\<close>. The first two windows are fetched (14 records), the third is not
  requested, and the result is the seven records of the first window followed by the
  first three of the second.
\<close>

theorem searchVideos_truncates_after_dedup_witness:
  "search_loop (Some 10) (400 * day_ms) 0 ([], 0) three_windows
     = Some (map video_named (seven ''a'' @ seven ''b''),
         service_with False [Inr (page_of (seven ''c'') None)] [details_of (seven ''c'')]
          \<lparr>trace := [SearchList None 0 (180 * day_ms), VideosList (seven ''a''),
                     SearchList None (180 * day_ms) (360 * day_ms), VideosList (seven ''b'')]\<rparr>)
   \<and> (10::int) < int (length (removeDuplicateVideos (map video_named (seven ''a'' @ seven ''b''))))
   \<and> searchVideos (Some 10) 0 (400 * day_ms) three_windows
     = Some (Inr (map video_named (seven ''a'' @ [''b1'', ''b2'', ''b3''])),
         service_with False [Inr (page_of (seven ''c'') None)] [details_of (seven ''c'')]
          \<lparr>trace := [SearchList None 0 (180 * day_ms), VideosList (seven ''a''),
                     SearchList None (180 * day_ms) (360 * day_ms), VideosList (seven ''b'')]\<rparr>)
   \<and> length (map video_named (seven ''a'' @ [''b1'', ''b2'', ''b3''])) = 10"
proof -
  let ?all = "map video_named (seven ''a'' @ seven ''b'')"
  let ?s' = "service_with False [Inr (page_of (seven ''c'') None)] [details_of (seven ''c'')]
          \<lparr>trace := [SearchList None 0 (180 * day_ms), VideosList (seven ''a''),
                     SearchList None (180 * day_ms) (360 * day_ms), VideosList (seven ''b'')]\<rparr>"
  have h1: "search_loop (Some 10) (400 * day_ms) 0 ([], 0) three_windows = Some (?all, ?s')"
    by (simp add: run_eval three_windows_def seven_def)
  have d: "removeDuplicateVideos ?all = ?all"
    by (simp add: removeDuplicateVideos_def seven_def video_named_def id_str_metadata)
  have h3: "(10::int) < int (length (removeDuplicateVideos ?all))"
    unfolding d by (simp add: seven_def)
  have t: "take (nat 10) (removeDuplicateVideos ?all) = map video_named (seven ''a'' @ [''b1'', ''b2'', ''b3''])"
    unfolding d by (simp add: seven_def)
  show ?thesis
    using searchVideos_truncates_after_dedup[OF h1 _ h3] h1 h3 unfolding t
    by (simp add: seven_def)
qed

text \<open>
  C1, at the failing input: the provider answers the first request of a window (no page
  token) with the quota error and would answer the retry with a page holding video
  \<open>a\<close>. The \<open>continue\<close> of the \<open>catch\<close> goes to the loop condition
  \<open>nextPageToken !== null\<close>, which is false on the first page, so the loop ends: the
  window gives no record, the flag stays set, there is no pause and no second request,
  and the search returns the empty list. Without the quota error the same provider gives
  the record of \<open>a\<close>.
\<close>

theorem quota_on_first_page_loses_window:
  "fetchVideosByDateRange 0 10 None
      (service_with False [Inl quota_403, Inr (page_of [''a''] None)] [details_of [''a'']])
     = Some ([], service_with True [Inr (page_of [''a''] None)] [details_of [''a'']]
                   \<lparr>trace := [SearchList None 0 10]\<rparr>)
   \<and> searchVideos None 0 10
      (service_with False [Inl quota_403, Inr (page_of [''a''] None)] [details_of [''a'']])
     = Some (Inr [], service_with True [Inr (page_of [''a''] None)] [details_of [''a'']]
                   \<lparr>trace := [SearchList None 0 10]\<rparr>)
   \<and> searchVideos None 0 10
      (service_with False [Inr (page_of [''a''] None)] [details_of [''a'']])
     = Some (Inr [video_named ''a''], service_with False [] []
                   \<lparr>trace := [SearchList None 0 10, VideosList [''a'']]\<rparr>)"
  by (simp add: run_eval)

text \<open>The same for every service: a quota error on the first request of a window ends the window.\<close>

lemma quota_on_first_page_general:
  assumes "search_replies s = Inl e # rs" and "is_quota_error e"
  shows "fetchVideosByDateRange a b m s
     = Some ([], (await_quota s)\<lparr>search_replies := rs,
                   trace := trace (await_quota s) @ [SearchList None a b],
                   quotaExceeded := True\<rparr>)"
proof -
  have "search_replies (await_quota s) = Inl e # rs"
    using assms(1) by (simp add: await_quota_def Let_def)
  then have "try_page a b m ([], None, 0) (await_quota s)
      = Some (Inl e, (await_quota s)\<lparr>search_replies := rs,
                   trace := trace (await_quota s) @ [SearchList None a b]\<rparr>)"
    by (simp add: try_page_def search_list_def)
  from fetch_loop_quota[OF this assms(2)] show ?thesis
    by (simp add: fetchVideosByDateRange_def)
qed

text \<open>
  On a later page (a page token is held) the loop goes round again with the same
  variables, so with the same page token, and with the flag set.
\<close>

lemma quota_on_later_page_general:
  assumes "search_replies s = Inl e # rs" and "is_quota_error e" and "nextPageToken \<noteq> None"
  shows "fetch_loop a b m (allVideos, nextPageToken, resultsFetched) s
     = fetch_loop a b m (allVideos, nextPageToken, resultsFetched)
         ((await_quota s)\<lparr>search_replies := rs,
            trace := trace (await_quota s) @ [SearchList nextPageToken a b],
            quotaExceeded := True\<rparr>)"
proof -
  have "search_replies (await_quota s) = Inl e # rs"
    using assms(1) by (simp add: await_quota_def Let_def)
  then have "try_page a b m (allVideos, nextPageToken, resultsFetched) (await_quota s)
      = Some (Inl e, (await_quota s)\<lparr>search_replies := rs,
                   trace := trace (await_quota s) @ [SearchList nextPageToken a b]\<rparr>)"
    by (simp add: try_page_def search_list_def)
  from fetch_loop_quota[OF this assms(2)] assms(3) show ?thesis
    by simp
qed

text \<open>
  On a run: after the quota error on the second page the next iteration pauses until the
  start of the next day, and the same page token is requested again.
\<close>

lemma quota_on_later_page_retries:
  "fetchVideosByDateRange 0 10 None
      (service_with False [Inr (page_of [''a''] (Some ''t1'')), Inl quota_403, Inr (page_of [''b''] None)]
         [details_of [''a''], details_of [''b'']])
     = Some ([video_named ''a'', video_named ''b''],
             \<lparr>quotaExceeded = False, now = day_ms, search_replies = [], videos_replies = [],
               trace = [SearchList None 0 10, VideosList [''a''], SearchList (Some ''t1'') 0 10,
                        Pause day_ms, SearchList (Some ''t1'') 0 10, VideosList [''b'']]\<rparr>)"
  by (simp add: run_eval)






end
